theory Spec2Isabelle
  imports Main "HOL-Library.Word" "HOL-Library.Sublist"
begin

unbundle bit_operations_syntax

section \<open>The DDNS worker (src/index.ts) as a shallow embedding\<close>

text \<open>
  The worker is one request handler, \<open>fetch\<close>. It reads three things of the request (the
  \<open>Authorization\<close> header and the query parameters \<open>hostname\<close> and \<open>myip\<close>), three
  secrets of the environment, and talks to the DNS provider through four calls.

  Strings are modelled as \<open>string\<close>, read as the sequence of bytes of the UTF-8 text, so
  that \<open>TextEncoder.encode\<close> is the byte-for-byte reading of a string. The operations of
  the JavaScript \<open>String\<close> prototype that the handler uses are written out below.
\<close>

subsection \<open>JavaScript string and array primitives used by the handler\<close>

type_synonym byte = "8 word"

text \<open>\<open>s.startsWith(t)\<close> and \<open>s.endsWith(t)\<close>.\<close>

definition startsWith :: "string \<Rightarrow> string \<Rightarrow> bool" where
  "startsWith s t = (take (length t) s = t)"

definition endsWith :: "string \<Rightarrow> string \<Rightarrow> bool" where
  "endsWith s t = (length t \<le> length s \<and> drop (length s - length t) s = t)"

text \<open>\<open>s.indexOf(t)\<close>: the least position at which \<open>t\<close> occurs in \<open>s\<close>, or \<open>-1\<close>.\<close>

fun indexOf :: "string \<Rightarrow> string \<Rightarrow> int" where
  "indexOf [] t = (if t = [] then 0 else - 1)"
| "indexOf (c # cs) t =
     (if startsWith (c # cs) t then 0
      else (let i = indexOf cs t in if i < 0 then - 1 else i + 1))"

text \<open>
  \<open>s.substring(start, end)\<close>: both indices are clamped to \<open>[0, length]\<close> and swapped when
  out of order; a missing \<open>end\<close> is the length.
\<close>

definition substring :: "string \<Rightarrow> int \<Rightarrow> int option \<Rightarrow> string" where
  "substring s start end_opt =
     (let n = int (length s);
          a = max 0 (min start n);
          b = (case end_opt of None \<Rightarrow> n | Some e \<Rightarrow> max 0 (min e n));
          lo = min a b;
          hi = max a b
      in take (nat (hi - lo)) (drop (nat lo) s))"

lemma indexOf_nonneg_nonempty:
  "0 \<le> indexOf s sep \<Longrightarrow> sep \<noteq> [] \<Longrightarrow> s \<noteq> []"
  by (cases s) auto

text \<open>
  \<open>s.split(sep)\<close> with no limit: the pieces of \<open>s\<close> between the successive occurrences of
  \<open>sep\<close>, found from the left. An empty separator cuts \<open>s\<close> into its units.
\<close>

function str_split :: "string \<Rightarrow> string \<Rightarrow> string list" where
  "str_split s sep =
     (if sep = [] then map (\<lambda>c. [c]) s
      else if indexOf s sep < 0 then [s]
      else take (nat (indexOf s sep)) s
             # str_split (drop (nat (indexOf s sep) + length sep) s) sep)"
  by pat_completeness auto
termination
proof (relation "measure (\<lambda>(s, sep). length s)")
  show "wf (measure (\<lambda>(s, sep). length s))" by simp
next
  fix s sep :: string
  assume "sep \<noteq> []" "\<not> indexOf s sep < 0"
  then have "s \<noteq> []" using indexOf_nonneg_nonempty [of s sep] by simp
  with \<open>sep \<noteq> []\<close>
  show "((drop (nat (indexOf s sep) + length sep) s, sep), (s, sep))
          \<in> measure (\<lambda>(s, sep). length s)"
    by (cases sep) auto
qed

declare str_split.simps [simp del]

text \<open>\<open>xs[i]\<close>: reading an array out of range gives \<open>undefined\<close>, here \<open>None\<close>.\<close>

fun nth_opt :: "'a list \<Rightarrow> nat \<Rightarrow> 'a option" where
  "nth_opt [] i = None"
| "nth_opt (x # xs) 0 = Some x"
| "nth_opt (x # xs) (Suc i) = nth_opt xs i"

subsection \<open>Constant-time comparison (lines 19-32)\<close>

datatype js_error = TypeError string | ProviderError string

text \<open>\<open>encoder.encode(s)\<close>: the bytes of the string.\<close>

definition encode :: "string \<Rightarrow> byte list" where
  "encode s = map (\<lambda>c. word_of_nat (of_char c)) s"

text \<open>
  Modelled from the spec: \<open>crypto.subtle.timingSafeEqual\<close>, the comparison primitive of
  the runtime, which is no part of the sources. The specification gives its algorithm: two
  byte sequences of equal length are compared by accumulating the bitwise OR of the
  bytewise differences (XOR), with no early exit on the content, and they are equal when
  the accumulator is zero at the end. On buffers of different byte length the primitive
  throws, which is why line 25 compares the lengths first.
\<close>

fun or_of_xors :: "byte \<Rightarrow> byte list \<Rightarrow> byte list \<Rightarrow> byte" where
  "or_of_xors acc (x # xs) (y # ys) = or_of_xors (acc OR (x XOR y)) xs ys"
| "or_of_xors acc _ _ = acc"

definition subtle_timingSafeEqual :: "byte list \<Rightarrow> byte list \<Rightarrow> js_error + bool" where
  "subtle_timingSafeEqual a b =
     (if length a \<noteq> length b
      then Inl (TypeError ''Input buffers must have the same byte length'')
      else Inr (or_of_xors 0 a b = 0))"

definition timingSafeEqual :: "string \<Rightarrow> string \<Rightarrow> js_error + bool" where
  "timingSafeEqual a b =
     (let aBytes = encode a; bBytes = encode b
      in if length aBytes \<noteq> length bBytes then Inr False
         else subtle_timingSafeEqual aBytes bBytes)"

subsection \<open>Data of the handler\<close>

text \<open>The secrets bound to the worker (\<open>env\<close>).\<close>

record env =
  CF_API_TOKEN :: string
  BASIC_USER :: string
  BASIC_PASS :: string

text \<open>
  What the handler reads of the request: \<open>request.headers.get("Authorization")\<close>,
  \<open>searchParams.get('hostname')\<close> and \<open>searchParams.get('myip')\<close>; each is \<open>null\<close>
  (\<open>None\<close>) when absent.
\<close>

record request =
  header_Authorization :: "string option"
  param_hostname :: "string option"
  param_myip :: "string option"

text \<open>A \<open>Response\<close>: status, body and the headers the handler sets itself.\<close>

record response =
  status :: nat
  body :: string
  headers :: "(string \<times> string) list"

text \<open>The handler either returns a response or lets an exception escape.\<close>

datatype outcome = Returned response | Uncaught js_error

text \<open>A zone and a DNS record as the provider lists them; a record's \<open>id\<close> is optional.\<close>

record zone =
  zone_id :: string
  zone_name :: string

datatype record_type = TypeA | TypeAAAA

record dns_record =
  rec_id :: "string option"
  rec_name :: string
  rec_type :: record_type
  rec_content :: string

text \<open>
  \<open>baseRecord\<close> (lines 117-122) and \<open>newRecord\<close> (lines 124-136). The \<open>name\<close> is the
  element \<open>[0]\<close> of an array, which JavaScript reads as \<open>undefined\<close> (\<open>None\<close>) on an
  empty array.
\<close>

record base_record =
  content :: string
  name :: "string option"
  ttl :: nat
  proxied :: bool

record new_record =
  nr_content :: string
  nr_name :: "string option"
  nr_ttl :: nat
  nr_proxied :: bool
  nr_type :: record_type

text \<open>\<open>{ ...baseRecord, type: t }\<close>.\<close>

definition spread_with_type :: "base_record \<Rightarrow> record_type \<Rightarrow> new_record" where
  "spread_with_type b t =
     \<lparr>nr_content = content b, nr_name = name b, nr_ttl = ttl b, nr_proxied = proxied b,
      nr_type = t\<rparr>"

text \<open>
  The libraries the handler calls, taken as parameters: \<open>Buffer.from(x, "base64").toString()\<close>
  of \<open>node:buffer\<close>, and \<open>Address4\<close> and \<open>Address6\<close> of \<open>ip-address\<close> (\<open>isValid\<close>, and
  \<open>correctForm\<close> of the address built from a literal).
\<close>

record platform =
  Buffer_base64_toString :: "string \<Rightarrow> string"
  Address4_isValid :: "string \<Rightarrow> bool"
  Address6_isValid :: "string \<Rightarrow> bool"
  Address4_correctForm :: "string \<Rightarrow> string"
  Address6_correctForm :: "string \<Rightarrow> string"

datatype address = Address4 string | Address6 string

definition correctForm :: "platform \<Rightarrow> address \<Rightarrow> string" where
  "correctForm pf a =
     (case a of Address4 s \<Rightarrow> Address4_correctForm pf s
              | Address6 s \<Rightarrow> Address6_correctForm pf s)"

text \<open>
  The DNS provider as the handler sees it during one request: what each of the four calls
  of the Cloudflare client answers, \<open>Inl\<close> for a rejected promise (an exception at the
  \<open>await\<close>). The calls take \<open>zone_id\<close> as the last argument.
\<close>

record cloudflare =
  zones_list :: "js_error + zone list"
  dns_records_list :: "string \<Rightarrow> js_error + dns_record list"
  dns_records_create :: "new_record \<Rightarrow> string \<Rightarrow> js_error + unit"
  dns_records_update :: "string \<Rightarrow> new_record \<Rightarrow> string \<Rightarrow> js_error + unit"

text \<open>The effects of one request, in order: the provider calls made and the errors logged.\<close>

datatype event =
    ZonesList
  | RecordsList string
  | RecordsCreate new_record string
  | RecordsUpdate string new_record string
  | ConsoleError js_error

subsection \<open>The handler \<open>fetch\<close> (lines 35-163)\<close>

definition plain_response :: "nat \<Rightarrow> string \<Rightarrow> response" where
  "plain_response st b = \<lparr>status = st, body = b, headers = []\<rparr>"

text \<open>The 401 response with its challenge header; the two places differ in the realm.\<close>

definition login_response :: "string \<Rightarrow> response" where
  "login_response realm =
     \<lparr>status = 401, body = ''You need to login.'',
      headers = [(''WWW-Authenticate'',
        ''Basic realm='' @ [CHR 0x22] @ realm @ [CHR 0x22] @ '', charset='' @ [CHR 0x22]
          @ ''UTF-8'' @ [CHR 0x22])]\<rparr>"

text \<open>
  Lines 42-81: the authorization check. \<open>None\<close> means that the handler goes on; \<open>Some\<close> is
  how it ends there. \<open>!x || !y\<close> evaluates \<open>y\<close> only when \<open>x\<close> holds.
\<close>

definition check_authorization :: "platform \<Rightarrow> env \<Rightarrow> request \<Rightarrow> outcome option" where
  "check_authorization pf env request =
     (case header_Authorization request of
        None \<Rightarrow> Some (Returned (login_response ''my scope''))
      | Some authorization \<Rightarrow>
          if authorization = [] then Some (Returned (login_response ''my scope''))
          else
            (let parts = str_split authorization '' '';
                 scheme = nth_opt parts 0;
                 encoded = nth_opt parts 1
             in case encoded of
                  None \<Rightarrow> Some (Returned (plain_response 400 ''Malformed authorization header.''))
                | Some enc \<Rightarrow>
                    if enc = [] \<or> scheme \<noteq> Some ''Basic''
                    then Some (Returned (plain_response 400 ''Malformed authorization header.''))
                    else
                      (let credentials = Buffer_base64_toString pf enc;
                           index = indexOf credentials '':'';
                           user = substring credentials 0 (Some index);
                           pass = substring credentials (index + 1) None
                       in case timingSafeEqual (BASIC_USER env) user of
                            Inl e \<Rightarrow> Some (Uncaught e)
                          | Inr user_ok \<Rightarrow>
                              if \<not> user_ok
                              then Some (Returned (login_response ''Cloudflare DDNS Worker''))
                              else
                                (case timingSafeEqual (BASIC_PASS env) pass of
                                   Inl e \<Rightarrow> Some (Uncaught e)
                                 | Inr pass_ok \<Rightarrow>
                                     if \<not> pass_ok
                                     then Some (Returned
                                            (login_response ''Cloudflare DDNS Worker''))
                                     else None))))"

text \<open>The \<open>catch\<close> of lines 159-162: log the error, answer 500.\<close>

definition caught :: "js_error \<Rightarrow> event list \<Rightarrow> outcome \<times> event list" where
  "caught e evs =
     (Returned (plain_response 500 ''Error modifying DNS record''), evs @ [ConsoleError e])"

text \<open>Lines 145-147: the create call and its response.\<close>

definition create_record ::
  "cloudflare \<Rightarrow> new_record \<Rightarrow> zone \<Rightarrow> outcome \<times> event list" where
  "create_record cf nr zone =
     (case dns_records_create cf nr (zone_id zone) of
        Inl e \<Rightarrow> caught e [RecordsList (zone_id zone), RecordsCreate nr (zone_id zone)]
      | Inr _ \<Rightarrow>
          (Returned (plain_response 200 ''DNS record created successfully''),
           [RecordsList (zone_id zone), RecordsCreate nr (zone_id zone)]))"

text \<open>Lines 151-158: the update call, keyed by the record's id, and its response.\<close>

definition update_record ::
  "cloudflare \<Rightarrow> string \<Rightarrow> new_record \<Rightarrow> zone \<Rightarrow> outcome \<times> event list" where
  "update_record cf rid nr zone =
     (case dns_records_update cf rid nr (zone_id zone) of
        Inl e \<Rightarrow> caught e [RecordsList (zone_id zone), RecordsUpdate rid nr (zone_id zone)]
      | Inr _ \<Rightarrow>
          (Returned (plain_response 200 ''DNS record updated successfully''),
           [RecordsList (zone_id zone), RecordsUpdate rid nr (zone_id zone)]))"

text \<open>Line 99: the zone lookup, the first zone whose name the hostname ends with.\<close>

definition find_zone :: "string \<Rightarrow> zone list \<Rightarrow> zone option" where
  "find_zone hostname zones = find (\<lambda>z. endsWith hostname (zone_name z)) zones"

text \<open>Line 105: the address, of the first family that accepts the literal.\<close>

definition parse_address :: "platform \<Rightarrow> string \<Rightarrow> address option" where
  "parse_address pf myip =
     (if Address4_isValid pf myip then Some (Address4 myip)
      else if Address6_isValid pf myip then Some (Address6 myip)
      else None)"

text \<open>Line 115: the record lookup, the first record whose name is the hostname.\<close>

definition find_record :: "string \<Rightarrow> dns_record list \<Rightarrow> dns_record option" where
  "find_record hostname records = find (\<lambda>r. rec_name r = hostname) records"

text \<open>Line 119: the name of the record within the zone.\<close>

definition record_name :: "zone \<Rightarrow> string \<Rightarrow> string option" where
  "record_name zone hostname =
     (if hostname = zone_name zone then Some ''@''
      else nth_opt (str_split hostname (''.'' @ zone_name zone)) 0)"

text \<open>Lines 117-136: \<open>baseRecord\<close>, and \<open>newRecord\<close> with the type of the family.\<close>

definition build_new_record ::
  "platform \<Rightarrow> address \<Rightarrow> zone \<Rightarrow> string \<Rightarrow> string \<Rightarrow> new_record option" where
  "build_new_record pf addr zone hostname myip =
     (let baseRecord =
            \<lparr>content = correctForm pf addr,
             name = record_name zone hostname,
             ttl = 300,
             proxied = False\<rparr>
      in if Address4_isValid pf myip then Some (spread_with_type baseRecord TypeA)
         else if Address6_isValid pf myip then Some (spread_with_type baseRecord TypeAAAA)
         else None)"

text \<open>
  Lines 104-162: the \<open>try\<close> block, for the zone found. \<open>!record?.id\<close> holds when there is
  no record, when the record has no id, and when its id is the empty string.
\<close>

definition upsert ::
  "platform \<Rightarrow> cloudflare \<Rightarrow> zone \<Rightarrow> string \<Rightarrow> string \<Rightarrow> outcome \<times> event list" where
  "upsert pf cf zone hostname myip =
     (case parse_address pf myip of
        None \<Rightarrow> (Returned (plain_response 400 ''Invalid IP address''), [])
      | Some addr \<Rightarrow>
          (case dns_records_list cf (zone_id zone) of
             Inl e \<Rightarrow> caught e [RecordsList (zone_id zone)]
           | Inr records \<Rightarrow>
               (case build_new_record pf addr zone hostname myip of
                  None \<Rightarrow>
                    (Returned (plain_response 400 ''Invalid IP address''),
                     [RecordsList (zone_id zone)])
                | Some nr \<Rightarrow>
                    (case find_record hostname records of
                       None \<Rightarrow> create_record cf nr zone
                     | Some r \<Rightarrow>
                         (case rec_id r of
                            None \<Rightarrow> create_record cf nr zone
                          | Some rid \<Rightarrow>
                              if rid = [] then create_record cf nr zone
                              else update_record cf rid nr zone)))))"

text \<open>
  Lines 83-102: the two parameters, the zone listing (outside the \<open>try\<close>) and the zone
  lookup, then the \<open>try\<close> block. \<open>!x\<close> holds for \<open>null\<close> and for the empty string.
\<close>

definition validate_and_resolve ::
  "platform \<Rightarrow> cloudflare \<Rightarrow> request \<Rightarrow> outcome \<times> event list" where
  "validate_and_resolve pf cf request =
     (case param_hostname request of
        None \<Rightarrow> (Returned (plain_response 400 ''No hostname provided''), [])
      | Some hostname \<Rightarrow>
          if hostname = [] then (Returned (plain_response 400 ''No hostname provided''), [])
          else
            (case param_myip request of
               None \<Rightarrow> (Returned (plain_response 400 ''No myip provided''), [])
             | Some myip \<Rightarrow>
                 if myip = [] then (Returned (plain_response 400 ''No myip provided''), [])
                 else
                   (case zones_list cf of
                      Inl e \<Rightarrow> (Uncaught e, [ZonesList])
                    | Inr zones \<Rightarrow>
                        (case find_zone hostname zones of
                           None \<Rightarrow>
                             (Returned (plain_response 400 ''Zone not found''), [ZonesList])
                         | Some zone \<Rightarrow>
                             (case upsert pf cf zone hostname myip of
                                (out, evs) \<Rightarrow> (out, ZonesList # evs))))))"

text \<open>The handler: its outcome and the effects it had.\<close>

definition fetch ::
  "platform \<Rightarrow> cloudflare \<Rightarrow> env \<Rightarrow> request \<Rightarrow> outcome \<times> event list" where
  "fetch pf cf env request =
     (case check_authorization pf env request of
        Some out \<Rightarrow> (out, [])
      | None \<Rightarrow> validate_and_resolve pf cf request)"

subsection \<open>Test doubles\<close>

text \<open>
  A stand-in for the two libraries that knows a handful of literals, a provider that owns
  the zones \<open>example.com\<close> and \<open>example.net\<close>, and a request with the credentials
  \<open>user:pass\<close>. They are the concrete inputs at which the theorems below are run.
\<close>

definition test_platform :: platform where
  "test_platform =
     \<lparr>Buffer_base64_toString =
        (\<lambda>t. case map_of [(''dXNlcjpwYXNz'', ''user:pass''),
                           (''dXNlcjpwYTpzcw=='', ''user:pa:ss''),
                           (''dXNlcjp3cm9uZw=='', ''user:wrong''),
                           (''c2VjcmV0'', ''secret'')] t of
               Some s \<Rightarrow> s | None \<Rightarrow> []),
      Address4_isValid = (\<lambda>s. List.member [''203.0.113.5'', ''192.168.1.1''] s),
      Address6_isValid = (\<lambda>s. List.member [''2001:db8::1'', ''2001:0db8:0:0:0:0:0:1''] s),
      Address4_correctForm = (\<lambda>s. s),
      Address6_correctForm = (\<lambda>s. if s = ''2001:0db8:0:0:0:0:0:1'' then ''2001:db8::1'' else s)\<rparr>"

definition test_env :: env where
  "test_env = \<lparr>CF_API_TOKEN = ''token'', BASIC_USER = ''user'', BASIC_PASS = ''pass''\<rparr>"

definition test_request :: "string \<Rightarrow> string \<Rightarrow> string \<Rightarrow> request" where
  "test_request token h ip =
     \<lparr>header_Authorization = Some (''Basic '' @ token), param_hostname = Some h,
      param_myip = Some ip\<rparr>"

definition test_zones :: "zone list" where
  "test_zones =
     [\<lparr>zone_id = ''z1'', zone_name = ''example.com''\<rparr>,
      \<lparr>zone_id = ''z2'', zone_name = ''example.net''\<rparr>]"

definition test_cloudflare :: "dns_record list \<Rightarrow> cloudflare" where
  "test_cloudflare rs =
     \<lparr>zones_list = Inr test_zones,
      dns_records_list = (\<lambda>zid. Inr (if zid = ''z1'' then rs else [])),
      dns_records_create = (\<lambda>nr zid. Inr ()),
      dns_records_update = (\<lambda>rid nr zid. Inr ())\<rparr>"

definition test_record :: "string option \<Rightarrow> dns_record" where
  "test_record rid =
     \<lparr>rec_id = rid, rec_name = ''home.example.com'', rec_type = TypeA,
      rec_content = ''203.0.113.1''\<rparr>"

definition test_new_record :: new_record where
  "test_new_record =
     \<lparr>nr_content = ''203.0.113.5'', nr_name = Some ''home'', nr_ttl = 300,
      nr_proxied = False, nr_type = TypeA\<rparr>"

text \<open>A record of another name in the same zone.\<close>

definition test_other_record :: dns_record where
  "test_other_record =
     \<lparr>rec_id = Some ''rec0'', rec_name = ''www.example.com'', rec_type = TypeA,
      rec_content = ''203.0.113.9''\<rparr>"

subsection \<open>The record name in the words of the specification\<close>

text \<open>
  The specification describes the name of the record as \<open>"@"\<close> for the apex and otherwise
  as the hostname with the trailing \<open>.<zone-name>\<close> suffix stripped. This second
  definition follows those words; \<open>record_name\<close> above follows the source.
\<close>

definition spec_record_name :: "zone \<Rightarrow> string \<Rightarrow> string" where
  "spec_record_name zone hostname =
     (if hostname = zone_name zone then ''@''
      else if endsWith hostname (''.'' @ zone_name zone)
      then take (length hostname - length (''.'' @ zone_name zone)) hostname
      else hostname)"

section \<open>Properties\<close>

subsection \<open>Properties of the string primitives\<close>

text \<open>\<open>endsWith\<close> is the suffix relation on strings.\<close>

lemma endsWith_suffix: "endsWith s t = suffix t s"
proof
  assume "endsWith s t"
  then have "s = take (length s - length t) s @ t"
    by (metis append_take_drop_id endsWith_def)
  then show "suffix t s" by (rule suffixI)
next
  assume "suffix t s"
  then obtain ys where "s = ys @ t" by (auto simp: suffix_def)
  then show "endsWith s t" by (simp add: endsWith_def)
qed

lemma indexOf_char_absent: "c \<notin> set s \<Longrightarrow> indexOf s [c] = - 1"
  by (induction s) (auto simp: startsWith_def)

lemma indexOf_char_first: "c \<notin> set u \<Longrightarrow> indexOf (u @ c # r) [c] = int (length u)"
  by (induction u) (auto simp: startsWith_def Let_def)

text \<open>The position found is the first one at which the needle starts.\<close>

lemma indexOf_first_occurrence:
  "\<forall>i<length u. \<not> startsWith (drop i (u @ t @ r)) t \<Longrightarrow>
     indexOf (u @ t @ r) t = int (length u)"
proof (induction u)
  case Nil
  have "startsWith (t @ r) t" by (simp add: startsWith_def)
  then show ?case by (cases "t @ r") auto
next
  case (Cons c u)
  from Cons.prems have "\<not> startsWith ((c # u) @ t @ r) t" by force
  moreover have "\<forall>i<length u. \<not> startsWith (drop i (u @ t @ r)) t"
  proof (intro allI impI)
    fix i assume "i < length u"
    then have "\<not> startsWith (drop (Suc i) ((c # u) @ t @ r)) t"
      using Cons.prems by (metis Suc_less_eq length_Cons)
    then show "\<not> startsWith (drop i (u @ t @ r)) t" by simp
  qed
  ultimately show ?case using Cons.IH by simp
qed

lemma substring_before: "substring (u @ c # r) 0 (Some (int (length u))) = u"
  by (simp add: substring_def Let_def)

lemma substring_after: "substring (u @ c # r) (int (length u) + 1) None = r"
proof -
  have "nat (int (length u) + 1) = Suc (length u)" by simp
  then show ?thesis by (simp add: substring_def Let_def)
qed

text \<open>With the index \<open>-1\<close> of a missing colon: an empty user, the whole string as password.\<close>

lemma substring_to_minus_one: "substring s 0 (Some (- 1)) = []"
  by (simp add: substring_def Let_def)

lemma substring_from_zero: "substring s 0 None = s"
  by (simp add: substring_def Let_def)

lemma str_split_char_absent: "c \<notin> set s \<Longrightarrow> str_split s [c] = [s]"
  by (subst str_split.simps) (simp add: indexOf_char_absent)

lemma str_split_char_first:
  "c \<notin> set u \<Longrightarrow> str_split (u @ c # r) [c] = u # str_split r [c]"
  by (subst str_split.simps) (simp add: indexOf_char_first)

lemma str_split_basic:
  "CHR '' '' \<notin> set token \<Longrightarrow> str_split (''Basic '' @ token) '' '' = [''Basic'', token]"
  using str_split_char_first [of "CHR '' ''" "''Basic''" token]
    str_split_char_absent [of "CHR '' ''" token]
  by simp

text \<open>A split at a non-empty separator has a first piece, so \<open>[0]\<close> is never \<open>undefined\<close>.\<close>

lemma str_split_nonempty: "sep \<noteq> [] \<Longrightarrow> str_split s sep \<noteq> []"
  by (subst str_split.simps) simp

subsection \<open>Properties of the comparison\<close>

lemma byte_xor_eq_0_iff: "(x XOR y = 0) = (x = y)" for x y :: byte
  by (metis bit.xor_left_self xor.right_neutral)

lemma or_of_xors_zero_acc:
  "or_of_xors acc xs ys = 0 \<Longrightarrow> acc = 0"
  by (induction acc xs ys rule: or_of_xors.induct) (auto simp: or_eq_0_iff)

lemma or_of_xors_eq:
  "length xs = length ys \<Longrightarrow> (or_of_xors acc xs ys = 0) = (acc = 0 \<and> xs = ys)"
proof (induction acc xs ys rule: or_of_xors.induct)
  case (1 acc x xs y ys)
  then show ?case by (auto simp: or_eq_0_iff byte_xor_eq_0_iff)
qed auto

lemma encode_length [simp]: "length (encode s) = length s"
  by (simp add: encode_def)

lemma encode_inj: "encode a = encode b \<Longrightarrow> a = b"
proof (induction a arbitrary: b)
  case Nil
  then show ?case by (simp add: encode_def)
next
  case (Cons c cs)
  then obtain d ds where b: "b = d # ds" by (cases b) (auto simp: encode_def)
  from Cons.prems b have hd: "(word_of_nat (of_char c) :: byte) = word_of_nat (of_char d)"
    and tl: "encode cs = encode ds" by (auto simp: encode_def)
  have "(of_char c :: nat) < 256" "(of_char d :: nat) < 256" by simp_all
  with hd have "(of_char c :: nat) = of_char d"
    by (simp add: word_of_nat_eq_iff take_bit_nat_eq_self)
  with tl Cons.IH b show ?case by simp
qed

lemma timingSafeEqual_eq: "timingSafeEqual a b = Inr (a = b)"
proof (cases "length a = length b")
  case True
  then show ?thesis
    using or_of_xors_eq [of "encode a" "encode b" 0] encode_inj [of a b]
    by (auto simp: timingSafeEqual_def subtle_timingSafeEqual_def)
next
  case False
  then show ?thesis by (auto simp: timingSafeEqual_def)
qed

text \<open>
  Claim C7. For all pairs of equal-length strings, \<open>timingSafeEqual\<close> returns true if and
  only if the strings are byte-identical under the encoding, and for all pairs of strings
  whose encodings differ in byte length it returns false. In both cases it returns, that
  is, the comparison of the runtime is never called on buffers it would reject.
\<close>

theorem timingSafeEqual_byte_identical:
  "(length a = length b \<longrightarrow> timingSafeEqual a b = Inr (encode a = encode b))
   \<and> (length (encode a) \<noteq> length (encode b) \<longrightarrow> timingSafeEqual a b = Inr False)"
proof (intro conjI impI)
  assume "length a = length b"
  then show "timingSafeEqual a b = Inr (encode a = encode b)"
    using or_of_xors_eq [of "encode a" "encode b" 0]
    by (simp add: timingSafeEqual_def subtle_timingSafeEqual_def)
next
  assume "length (encode a) \<noteq> length (encode b)"
  then show "timingSafeEqual a b = Inr False"
    by (simp add: timingSafeEqual_def)
qed

text \<open>Equal strings, strings of equal length that differ, and strings of different length.\<close>

theorem timingSafeEqual_byte_identical_witness:
  "timingSafeEqual ''pass'' ''pass'' = Inr True
   \<and> timingSafeEqual ''pass'' ''past'' = Inr False
   \<and> timingSafeEqual ''pass'' ''password'' = Inr False"
proof -
  have "timingSafeEqual ''pass'' ''pass'' = Inr (encode ''pass'' = encode ''pass'')"
    using timingSafeEqual_byte_identical [of "''pass''" "''pass''"] by simp
  moreover have "timingSafeEqual ''pass'' ''past'' = Inr (encode ''pass'' = encode ''past'')"
    using timingSafeEqual_byte_identical [of "''pass''" "''past''"] by simp
  moreover have "encode ''pass'' \<noteq> encode ''past''"
    by (simp add: encode_def)
  moreover have "timingSafeEqual ''pass'' ''password'' = Inr False"
    using timingSafeEqual_byte_identical [of "''pass''" "''password''"] by simp
  ultimately show ?thesis by simp
qed

subsection \<open>The authorization check\<close>

text \<open>
  A header \<open>Basic <token>\<close> whose token has no space passes the scheme check; what is
  left is the decoding, the cut at the colon and the two comparisons.
\<close>

lemma check_authorization_basic:
  assumes "header_Authorization request = Some (''Basic '' @ token)"
    and "token \<noteq> []" and "CHR '' '' \<notin> set token"
  shows "check_authorization pf env request =
     (let credentials = Buffer_base64_toString pf token;
          index = indexOf credentials '':'';
          user = substring credentials 0 (Some index);
          pass = substring credentials (index + 1) None
      in if BASIC_USER env = user \<and> BASIC_PASS env = pass then None
         else Some (Returned (login_response ''Cloudflare DDNS Worker'')))"
proof -
  have parts: "str_split (''Basic '' @ token) '' '' = [''Basic'', token]"
    using assms(3) by (rule str_split_basic)
  show ?thesis
    using assms(1,2) parts [simplified]
    by (simp add: check_authorization_def timingSafeEqual_eq Let_def)
qed

lemma test_request_authenticated:
  "check_authorization test_platform test_env (test_request ''dXNlcjpwYXNz'' h ip) = None"
  using check_authorization_basic [of "test_request ''dXNlcjpwYXNz'' h ip" "''dXNlcjpwYXNz''"
      test_platform test_env]
  by (simp add: test_request_def test_platform_def test_env_def substring_def startsWith_def)

text \<open>
  Claim C8. When the decoded credential string is \<open>u:p\<close> with no colon in \<open>u\<close>, the
  decoded username is \<open>u\<close>, the part before the first colon, and the decoded password is
  \<open>p\<close>, everything after it, colons included. A header whose token decodes to \<open>u:p\<close>
  (as \<open>base64(u + ":" + p)\<close> does) authenticates exactly when \<open>u\<close> is the expected
  username and \<open>p\<close> the expected password; otherwise the handler answers 401.
\<close>

theorem first_colon_split:
  assumes "header_Authorization request = Some (''Basic '' @ token)"
    and "token \<noteq> []" and "CHR '' '' \<notin> set token"
    and "Buffer_base64_toString pf token = u @ '':'' @ p"
    and "CHR '':'' \<notin> set u"
  shows "substring (u @ '':'' @ p) 0 (Some (indexOf (u @ '':'' @ p) '':'')) = u
       \<and> substring (u @ '':'' @ p) (indexOf (u @ '':'' @ p) '':'' + 1) None = p
       \<and> check_authorization pf env request =
           (if u = BASIC_USER env \<and> p = BASIC_PASS env then None
            else Some (Returned (login_response ''Cloudflare DDNS Worker'')))
       \<and> fetch pf cf env request =
           (if u = BASIC_USER env \<and> p = BASIC_PASS env then validate_and_resolve pf cf request
            else (Returned (login_response ''Cloudflare DDNS Worker''), []))"
proof -
  have ix: "indexOf (u @ '':'' @ p) '':'' = int (length u)"
    using indexOf_char_first [OF assms(5), of p] by simp
  have user: "substring (u @ '':'' @ p) 0 (Some (int (length u))) = u"
    using substring_before [of u "CHR '':''" p] by simp
  have pass: "substring (u @ '':'' @ p) (int (length u) + 1) None = p"
    using substring_after [of u "CHR '':''" p] by simp
  have auth: "check_authorization pf env request =
           (if u = BASIC_USER env \<and> p = BASIC_PASS env then None
            else Some (Returned (login_response ''Cloudflare DDNS Worker'')))"
    using check_authorization_basic [OF assms(1-3), of pf env] assms(4) ix user pass
    by (auto simp: Let_def)
  then have "fetch pf cf env request =
           (if u = BASIC_USER env \<and> p = BASIC_PASS env then validate_and_resolve pf cf request
            else (Returned (login_response ''Cloudflare DDNS Worker''), []))"
    by (simp add: fetch_def)
  with ix user pass auth show ?thesis by simp
qed

text \<open>
  The token of \<open>user:pa:ss\<close>: it authenticates against the password \<open>pa:ss\<close>, and is
  refused against the password \<open>pass\<close>.
\<close>

theorem first_colon_split_witness:
  "check_authorization test_platform (test_env\<lparr>BASIC_PASS := ''pa:ss''\<rparr>)
     (test_request ''dXNlcjpwYTpzcw=='' ''home.example.com'' ''203.0.113.5'') = None
   \<and> check_authorization test_platform test_env
       (test_request ''dXNlcjpwYTpzcw=='' ''home.example.com'' ''203.0.113.5'')
     = Some (Returned (login_response ''Cloudflare DDNS Worker''))"
proof -
  let ?req = "test_request ''dXNlcjpwYTpzcw=='' ''home.example.com'' ''203.0.113.5''"
  have h1: "header_Authorization ?req = Some (''Basic '' @ ''dXNlcjpwYTpzcw=='')"
    by (simp add: test_request_def)
  have h2: "''dXNlcjpwYTpzcw=='' \<noteq> []" by simp
  have h3: "CHR '' '' \<notin> set ''dXNlcjpwYTpzcw==''" by simp
  have h4: "Buffer_base64_toString test_platform ''dXNlcjpwYTpzcw==''
      = ''user'' @ '':'' @ ''pa:ss''"
    by (simp add: test_platform_def)
  have h5: "CHR '':'' \<notin> set ''user''" by simp
  note inst = first_colon_split [OF h1 h2 h3 h4 h5]
  show ?thesis
    using inst [of "test_env\<lparr>BASIC_PASS := ''pa:ss''\<rparr>"] inst [of test_env]
    by (simp add: test_env_def)
qed

text \<open>
  Claim C9. When the decoded credential string has no colon, the handler does not answer
  with the malformed-header response: the username is the empty string and the password
  the whole decoded string, so the request authenticates if and only if the expected
  username is empty and the expected password is the decoded string; otherwise the
  response is 401 "You need to login.".
\<close>

theorem no_colon_credentials:
  assumes "header_Authorization request = Some (''Basic '' @ token)"
    and "token \<noteq> []" and "CHR '' '' \<notin> set token"
    and "Buffer_base64_toString pf token = credentials"
    and "CHR '':'' \<notin> set credentials"
  shows "substring credentials 0 (Some (indexOf credentials '':'')) = []
       \<and> substring credentials (indexOf credentials '':'' + 1) None = credentials
       \<and> check_authorization pf env request =
           (if BASIC_USER env = [] \<and> BASIC_PASS env = credentials then None
            else Some (Returned (login_response ''Cloudflare DDNS Worker'')))
       \<and> check_authorization pf env request
           \<noteq> Some (Returned (plain_response 400 ''Malformed authorization header.''))
       \<and> fetch pf cf env request =
           (if BASIC_USER env = [] \<and> BASIC_PASS env = credentials
            then validate_and_resolve pf cf request
            else (Returned
                    \<lparr>status = 401, body = ''You need to login.'',
                     headers = headers (login_response ''Cloudflare DDNS Worker'')\<rparr>, []))"
proof -
  have ix: "indexOf credentials '':'' = - 1"
    using indexOf_char_absent [OF assms(5)] .
  have auth: "check_authorization pf env request =
           (if BASIC_USER env = [] \<and> BASIC_PASS env = credentials then None
            else Some (Returned (login_response ''Cloudflare DDNS Worker'')))"
    using check_authorization_basic [OF assms(1-3), of pf env] assms(4) ix
    by (auto simp: Let_def substring_to_minus_one substring_from_zero)
  then have "fetch pf cf env request =
           (if BASIC_USER env = [] \<and> BASIC_PASS env = credentials
            then validate_and_resolve pf cf request
            else (Returned
                    \<lparr>status = 401, body = ''You need to login.'',
                     headers = headers (login_response ''Cloudflare DDNS Worker'')\<rparr>, []))"
    by (simp add: fetch_def login_response_def)
  with ix auth show ?thesis
    by (simp add: substring_to_minus_one substring_from_zero login_response_def
        plain_response_def)
qed

text \<open>
  The token of \<open>secret\<close>: it authenticates against an empty username with the password
  \<open>secret\<close>, and is refused against \<open>user\<close> and \<open>pass\<close>.
\<close>

theorem no_colon_credentials_witness:
  "check_authorization test_platform
     \<lparr>CF_API_TOKEN = ''token'', BASIC_USER = [], BASIC_PASS = ''secret''\<rparr>
     (test_request ''c2VjcmV0'' ''home.example.com'' ''203.0.113.5'') = None
   \<and> check_authorization test_platform test_env
       (test_request ''c2VjcmV0'' ''home.example.com'' ''203.0.113.5'')
     = Some (Returned (login_response ''Cloudflare DDNS Worker''))"
proof -
  let ?req = "test_request ''c2VjcmV0'' ''home.example.com'' ''203.0.113.5''"
  have h1: "header_Authorization ?req = Some (''Basic '' @ ''c2VjcmV0'')"
    by (simp add: test_request_def)
  have h2: "''c2VjcmV0'' \<noteq> []" by simp
  have h3: "CHR '' '' \<notin> set ''c2VjcmV0''" by simp
  have h4: "Buffer_base64_toString test_platform ''c2VjcmV0'' = ''secret''"
    by (simp add: test_platform_def)
  have h5: "CHR '':'' \<notin> set ''secret''" by simp
  note inst = no_colon_credentials [OF h1 h2 h3 h4 h5]
  show ?thesis
    using inst [of "\<lparr>CF_API_TOKEN = ''token'', BASIC_USER = [], BASIC_PASS = ''secret''\<rparr>"]
      inst [of test_env]
    by (simp add: test_env_def)
qed

subsection \<open>Zone resolution\<close>

text \<open>An authenticated request with both parameters, once the zones are listed.\<close>

lemma fetch_authenticated:
  assumes "check_authorization pf env request = None"
    and "param_hostname request = Some hostname" and "hostname \<noteq> []"
    and "param_myip request = Some myip" and "myip \<noteq> []"
    and "zones_list cf = Inr zones"
  shows "fetch pf cf env request =
     (case find_zone hostname zones of
        None \<Rightarrow> (Returned (plain_response 400 ''Zone not found''), [ZonesList])
      | Some zone \<Rightarrow>
          (case upsert pf cf zone hostname myip of (out, evs) \<Rightarrow> (out, ZonesList # evs)))"
  using assms by (simp add: fetch_def validate_and_resolve_def)

lemma find_zone_None:
  "(find_zone hostname zones = None) = (\<forall>z\<in>set zones. \<not> suffix (zone_name z) hostname)"
  by (auto simp: find_zone_def find_None_iff endsWith_suffix)

lemma find_zone_Some:
  "(find_zone hostname zones = Some z) =
     (\<exists>i<length zones. z = zones ! i \<and> suffix (zone_name (zones ! i)) hostname
        \<and> (\<forall>j<i. \<not> suffix (zone_name (zones ! j)) hostname))"
  by (auto simp: find_zone_def find_Some_iff endsWith_suffix)

text \<open>
  Claim C3. For an authenticated request with both parameters, the zone lookup returns the
  first zone, in the order of the provider's list, whose name is a suffix of the hostname
  as a string; the handler goes on with that zone. When no zone's name is a suffix of the
  hostname, the lookup finds nothing and the response is 400 "Zone not found".
\<close>

theorem zone_resolver_first_suffix_match:
  assumes "check_authorization pf env request = None"
    and "param_hostname request = Some hostname" and "hostname \<noteq> []"
    and "param_myip request = Some myip" and "myip \<noteq> []"
    and "zones_list cf = Inr zones"
  shows "(\<forall>i<length zones.
            suffix (zone_name (zones ! i)) hostname
            \<and> (\<forall>j<i. \<not> suffix (zone_name (zones ! j)) hostname)
          \<longrightarrow> find_zone hostname zones = Some (zones ! i)
              \<and> fetch pf cf env request =
                  (case upsert pf cf (zones ! i) hostname myip of
                     (out, evs) \<Rightarrow> (out, ZonesList # evs)))
       \<and> ((\<forall>z\<in>set zones. \<not> suffix (zone_name z) hostname)
          \<longrightarrow> find_zone hostname zones = None
              \<and> fetch pf cf env request =
                  (Returned (plain_response 400 ''Zone not found''), [ZonesList]))"
proof (intro conjI allI impI)
  fix i
  assume i: "i < length zones"
    and m: "suffix (zone_name (zones ! i)) hostname
            \<and> (\<forall>j<i. \<not> suffix (zone_name (zones ! j)) hostname)"
  then show z: "find_zone hostname zones = Some (zones ! i)"
    unfolding find_zone_Some by blast
  show "fetch pf cf env request =
          (case upsert pf cf (zones ! i) hostname myip of
             (out, evs) \<Rightarrow> (out, ZonesList # evs))"
    using fetch_authenticated [OF assms] z by simp
next
  assume none: "\<forall>z\<in>set zones. \<not> suffix (zone_name z) hostname"
  then show z: "find_zone hostname zones = None"
    by (simp add: find_zone_None)
  show "fetch pf cf env request =
          (Returned (plain_response 400 ''Zone not found''), [ZonesList])"
    using fetch_authenticated [OF assms] z by simp
qed

text \<open>
  With the zones \<open>example.com\<close> and \<open>example.net\<close>: \<open>home.example.com\<close> resolves to
  \<open>example.com\<close> and the record is created there; \<open>home.example.org\<close> resolves to no
  zone.
\<close>

theorem zone_resolver_first_suffix_match_witness:
  "find_zone ''home.example.com'' test_zones
     = Some \<lparr>zone_id = ''z1'', zone_name = ''example.com''\<rparr>
   \<and> fetch test_platform (test_cloudflare []) test_env
       (test_request ''dXNlcjpwYXNz'' ''home.example.com'' ''203.0.113.5'')
     = (Returned (plain_response 200 ''DNS record created successfully''),
        [ZonesList, RecordsList ''z1'', RecordsCreate test_new_record ''z1''])
   \<and> find_zone ''home.example.org'' test_zones = None
   \<and> fetch test_platform (test_cloudflare []) test_env
       (test_request ''dXNlcjpwYXNz'' ''home.example.org'' ''203.0.113.5'')
     = (Returned (plain_response 400 ''Zone not found''), [ZonesList])"
proof -
  let ?cf = "test_cloudflare []"
  let ?com = "test_request ''dXNlcjpwYXNz'' ''home.example.com'' ''203.0.113.5''"
  let ?org = "test_request ''dXNlcjpwYXNz'' ''home.example.org'' ''203.0.113.5''"
  have z: "zones_list ?cf = Inr test_zones" by (simp add: test_cloudflare_def)
  have com: "param_hostname ?com = Some ''home.example.com''" "''home.example.com'' \<noteq> []"
    "param_myip ?com = Some ''203.0.113.5''" "''203.0.113.5'' \<noteq> []"
    by (simp_all add: test_request_def)
  have org: "param_hostname ?org = Some ''home.example.org''" "''home.example.org'' \<noteq> []"
    "param_myip ?org = Some ''203.0.113.5''" "''203.0.113.5'' \<noteq> []"
    by (simp_all add: test_request_def)
  have first: "0 < length test_zones"
    "suffix (zone_name (test_zones ! 0)) ''home.example.com''
      \<and> (\<forall>j<0. \<not> suffix (zone_name (test_zones ! j)) ''home.example.com'')"
    by (simp_all add: test_zones_def suffix_to_prefix)
  have none: "\<forall>z\<in>set test_zones. \<not> suffix (zone_name z) ''home.example.org''"
    by (simp add: test_zones_def suffix_to_prefix)
  have a: "find_zone ''home.example.com'' test_zones = Some (test_zones ! 0)
      \<and> fetch test_platform ?cf test_env ?com =
          (case upsert test_platform ?cf (test_zones ! 0) ''home.example.com'' ''203.0.113.5'' of
             (out, evs) \<Rightarrow> (out, ZonesList # evs))"
    using zone_resolver_first_suffix_match [OF test_request_authenticated com z] first
    by blast
  have b: "find_zone ''home.example.org'' test_zones = None
      \<and> fetch test_platform ?cf test_env ?org =
          (Returned (plain_response 400 ''Zone not found''), [ZonesList])"
    using zone_resolver_first_suffix_match [OF test_request_authenticated org z] none
    by blast
  have u: "upsert test_platform ?cf (test_zones ! 0) ''home.example.com'' ''203.0.113.5''
      = (Returned (plain_response 200 ''DNS record created successfully''),
         [RecordsList ''z1'', RecordsCreate test_new_record ''z1''])"
    by code_simp
  have z0: "test_zones ! 0 = \<lparr>zone_id = ''z1'', zone_name = ''example.com''\<rparr>"
    by (simp add: test_zones_def)
  show ?thesis using a b u z0 by simp
qed

text \<open>
  The lookup has no tie-break for the longest suffix and asks for no dot before the zone
  name: with a parent zone listed before its child the parent wins, and \<open>myexample.com\<close>
  resolves to the zone \<open>example.com\<close>.
\<close>

lemma find_zone_examples:
  "find_zone ''a.sub.example.com''
     [\<lparr>zone_id = ''z1'', zone_name = ''example.com''\<rparr>,
      \<lparr>zone_id = ''z3'', zone_name = ''sub.example.com''\<rparr>]
     = Some \<lparr>zone_id = ''z1'', zone_name = ''example.com''\<rparr>"
  "find_zone ''myexample.com'' test_zones = Some \<lparr>zone_id = ''z1'', zone_name = ''example.com''\<rparr>"
  by code_simp+

text \<open>
  Claim C6. For an authenticated request with both parameters whose hostname matches no
  zone (no zone's name is a suffix of the hostname), the response is 400 with the body
  "Zone not found", and the only provider call made is the zone listing: neither a create
  nor an update call is made.
\<close>

theorem unmatched_hostname_no_write:
  assumes "check_authorization pf env request = None"
    and "param_hostname request = Some hostname" and "hostname \<noteq> []"
    and "param_myip request = Some myip" and "myip \<noteq> []"
    and "zones_list cf = Inr zones"
    and "\<forall>z\<in>set zones. \<not> suffix (zone_name z) hostname"
  shows "fetch pf cf env request =
           (Returned \<lparr>status = 400, body = ''Zone not found'', headers = []\<rparr>, [ZonesList])
       \<and> RecordsCreate nr zid \<notin> set (snd (fetch pf cf env request))
       \<and> RecordsUpdate rid nr zid \<notin> set (snd (fetch pf cf env request))"
proof -
  have "find_zone hostname zones = None"
    using assms(7) by (simp add: find_zone_None)
  then have "fetch pf cf env request =
      (Returned (plain_response 400 ''Zone not found''), [ZonesList])"
    using fetch_authenticated [OF assms(1-6)] by simp
  then show ?thesis by (simp add: plain_response_def)
qed

text \<open>The hostname \<open>home.example.org\<close> against the zones \<open>example.com\<close> and \<open>example.net\<close>.\<close>

theorem unmatched_hostname_no_write_witness:
  "fetch test_platform (test_cloudflare []) test_env
       (test_request ''dXNlcjpwYXNz'' ''home.example.org'' ''203.0.113.5'')
     = (Returned \<lparr>status = 400, body = ''Zone not found'', headers = []\<rparr>, [ZonesList])
   \<and> RecordsCreate test_new_record ''z1''
       \<notin> set (snd (fetch test_platform (test_cloudflare []) test_env
            (test_request ''dXNlcjpwYXNz'' ''home.example.org'' ''203.0.113.5'')))
   \<and> RecordsUpdate ''rec1'' test_new_record ''z1''
       \<notin> set (snd (fetch test_platform (test_cloudflare []) test_env
            (test_request ''dXNlcjpwYXNz'' ''home.example.org'' ''203.0.113.5'')))"
proof -
  let ?cf = "test_cloudflare []"
  let ?org = "test_request ''dXNlcjpwYXNz'' ''home.example.org'' ''203.0.113.5''"
  have z: "zones_list ?cf = Inr test_zones" by (simp add: test_cloudflare_def)
  have org: "param_hostname ?org = Some ''home.example.org''" "''home.example.org'' \<noteq> []"
    "param_myip ?org = Some ''203.0.113.5''" "''203.0.113.5'' \<noteq> []"
    by (simp_all add: test_request_def)
  have none: "\<forall>z\<in>set test_zones. \<not> suffix (zone_name z) ''home.example.org''"
    by (simp add: test_zones_def suffix_to_prefix)
  show ?thesis
    using unmatched_hostname_no_write [OF test_request_authenticated org z none]
    by blast
qed

text \<open>
  Claim C2, as amended. For an authenticated request with both parameters whose zone
  listing succeeds, the zone lookup comes before the classification of the address: when
  \<open>myip\<close> is neither a valid IPv4 nor a valid IPv6 literal, the response is 400 "Invalid IP
  address" if some zone's name is a suffix of the hostname, and 400 "Zone not found" if
  none is. The zone-not-found failure takes precedence over the invalid-address failure.
\<close>

theorem zone_lookup_precedes_classification:
  assumes "check_authorization pf env request = None"
    and "param_hostname request = Some hostname" and "hostname \<noteq> []"
    and "param_myip request = Some myip" and "myip \<noteq> []"
    and "zones_list cf = Inr zones"
    and "\<not> Address4_isValid pf myip" and "\<not> Address6_isValid pf myip"
  shows "fetch pf cf env request =
           (if \<exists>z\<in>set zones. suffix (zone_name z) hostname
            then (Returned (plain_response 400 ''Invalid IP address''), [ZonesList])
            else (Returned (plain_response 400 ''Zone not found''), [ZonesList]))"
proof (cases "find_zone hostname zones")
  case None
  moreover from None have "\<not> (\<exists>z\<in>set zones. suffix (zone_name z) hostname)"
    by (simp add: find_zone_None)
  ultimately show ?thesis
    using fetch_authenticated [OF assms(1-6)] by simp
next
  case (Some zone)
  then have "\<exists>z\<in>set zones. suffix (zone_name z) hostname"
    using find_zone_None [of hostname zones] by auto
  moreover have "upsert pf cf zone hostname myip =
      (Returned (plain_response 400 ''Invalid IP address''), [])"
    using assms(7,8) by (simp add: upsert_def parse_address_def)
  ultimately show ?thesis
    using fetch_authenticated [OF assms(1-6)] Some by simp
qed

text \<open>
  The literal \<open>not-an-ip\<close>: with \<open>home.example.com\<close> the address is refused, with
  \<open>home.example.org\<close> the zone is not found.
\<close>

theorem zone_lookup_precedes_classification_witness:
  "fetch test_platform (test_cloudflare []) test_env
       (test_request ''dXNlcjpwYXNz'' ''home.example.com'' ''not-an-ip'')
     = (Returned (plain_response 400 ''Invalid IP address''), [ZonesList])
   \<and> fetch test_platform (test_cloudflare []) test_env
       (test_request ''dXNlcjpwYXNz'' ''home.example.org'' ''not-an-ip'')
     = (Returned (plain_response 400 ''Zone not found''), [ZonesList])"
proof -
  let ?cf = "test_cloudflare []"
  let ?com = "test_request ''dXNlcjpwYXNz'' ''home.example.com'' ''not-an-ip''"
  let ?org = "test_request ''dXNlcjpwYXNz'' ''home.example.org'' ''not-an-ip''"
  have z: "zones_list ?cf = Inr test_zones" by (simp add: test_cloudflare_def)
  have com: "param_hostname ?com = Some ''home.example.com''" "''home.example.com'' \<noteq> []"
    "param_myip ?com = Some ''not-an-ip''" "''not-an-ip'' \<noteq> []"
    by (simp_all add: test_request_def)
  have org: "param_hostname ?org = Some ''home.example.org''" "''home.example.org'' \<noteq> []"
    "param_myip ?org = Some ''not-an-ip''" "''not-an-ip'' \<noteq> []"
    by (simp_all add: test_request_def)
  have bad: "\<not> Address4_isValid test_platform ''not-an-ip''"
    "\<not> Address6_isValid test_platform ''not-an-ip''"
    by (simp_all add: test_platform_def)
  have some: "\<exists>z\<in>set test_zones. suffix (zone_name z) ''home.example.com''"
    by (simp add: test_zones_def suffix_to_prefix)
  have none: "\<not> (\<exists>z\<in>set test_zones. suffix (zone_name z) ''home.example.org'')"
    by (simp add: test_zones_def suffix_to_prefix)
  show ?thesis
    using zone_lookup_precedes_classification [OF test_request_authenticated com z bad]
      zone_lookup_precedes_classification [OF test_request_authenticated org z bad]
      some none
    by simp
qed

text \<open>
  The claim as first stated gives "Invalid IP address" precedence. It fails for an
  authenticated request with the hostname \<open>home.example.org\<close>, which no zone matches, and
  the invalid literal \<open>not-an-ip\<close>: the response is "Zone not found".
\<close>

theorem invalid_address_precedence_counterexample:
  "check_authorization test_platform test_env
       (test_request ''dXNlcjpwYXNz'' ''home.example.org'' ''not-an-ip'') = None
   \<and> \<not> Address4_isValid test_platform ''not-an-ip''
   \<and> \<not> Address6_isValid test_platform ''not-an-ip''
   \<and> find_zone ''home.example.org'' test_zones = None
   \<and> fetch test_platform (test_cloudflare []) test_env
       (test_request ''dXNlcjpwYXNz'' ''home.example.org'' ''not-an-ip'')
     = (Returned (plain_response 400 ''Zone not found''), [ZonesList])
   \<and> fst (fetch test_platform (test_cloudflare []) test_env
       (test_request ''dXNlcjpwYXNz'' ''home.example.org'' ''not-an-ip''))
     \<noteq> Returned (plain_response 400 ''Invalid IP address'')"
  by code_simp

subsection \<open>Record resolution and the create-or-update decision\<close>

text \<open>
  The request once its zone is found, its address is valid and the records are listed:
  what is left is the choice between the create and the update call.
\<close>

lemma fetch_zone_resolved:
  assumes "check_authorization pf env request = None"
    and "param_hostname request = Some hostname" and "hostname \<noteq> []"
    and "param_myip request = Some myip" and "myip \<noteq> []"
    and "zones_list cf = Inr zones"
    and "find_zone hostname zones = Some zone"
    and "parse_address pf myip = Some addr"
    and "build_new_record pf addr zone hostname myip = Some nr"
    and "dns_records_list cf (zone_id zone) = Inr records"
  shows "fetch pf cf env request =
     (case (case find_record hostname records of
              None \<Rightarrow> create_record cf nr zone
            | Some r \<Rightarrow>
                (case rec_id r of
                   None \<Rightarrow> create_record cf nr zone
                 | Some rid \<Rightarrow>
                     if rid = [] then create_record cf nr zone
                     else update_record cf rid nr zone)) of
        (out, evs) \<Rightarrow> (out, ZonesList # evs))"
  using fetch_authenticated [OF assms(1-6)] assms(7-10)
  by (simp add: upsert_def)


lemma find_record_Some:
  "(find_record hostname records = Some r) =
     (\<exists>i<length records. r = records ! i \<and> rec_name (records ! i) = hostname
        \<and> (\<forall>j<i. rec_name (records ! j) \<noteq> hostname))"
  by (auto simp: find_record_def find_Some_iff)


lemma test_home_request:
  "param_hostname (test_request t ''home.example.com'' ''203.0.113.5'') = Some ''home.example.com''"
  "''home.example.com'' \<noteq> []"
  "param_myip (test_request t ''home.example.com'' ''203.0.113.5'') = Some ''203.0.113.5''"
  "''203.0.113.5'' \<noteq> []"
  "zones_list (test_cloudflare rs) = Inr test_zones"
  "find_zone ''home.example.com'' test_zones = Some \<lparr>zone_id = ''z1'', zone_name = ''example.com''\<rparr>"
  "parse_address test_platform ''203.0.113.5'' = Some (Address4 ''203.0.113.5'')"
  "build_new_record test_platform (Address4 ''203.0.113.5'')
     \<lparr>zone_id = ''z1'', zone_name = ''example.com''\<rparr> ''home.example.com'' ''203.0.113.5''
     = Some test_new_record"
  "dns_records_list (test_cloudflare rs) (zone_id \<lparr>zone_id = ''z1'', zone_name = ''example.com''\<rparr>)
     = Inr rs"
proof -
  show "find_zone ''home.example.com'' test_zones
      = Some \<lparr>zone_id = ''z1'', zone_name = ''example.com''\<rparr>"
    by code_simp
  show "parse_address test_platform ''203.0.113.5'' = Some (Address4 ''203.0.113.5'')"
    by code_simp
  show "build_new_record test_platform (Address4 ''203.0.113.5'')
     \<lparr>zone_id = ''z1'', zone_name = ''example.com''\<rparr> ''home.example.com'' ''203.0.113.5''
     = Some test_new_record"
    by code_simp
qed (simp_all add: test_request_def test_cloudflare_def)




text \<open>
  Claim C10, as amended. When the first record of the list whose name equals the hostname
  has an id that is absent or empty, the handler takes the create branch although a record
  was found: a create call is issued and no update call, and the response is 200 "DNS
  record created successfully" when the create call does not throw (when it throws, the
  response is the 500 of the \<open>catch\<close>).
\<close>

theorem first_match_without_id_creates:
  assumes "check_authorization pf env request = None"
    and "param_hostname request = Some hostname" and "hostname \<noteq> []"
    and "param_myip request = Some myip" and "myip \<noteq> []"
    and "zones_list cf = Inr zones"
    and "find_zone hostname zones = Some zone"
    and "parse_address pf myip = Some addr"
    and "build_new_record pf addr zone hostname myip = Some nr"
    and "dns_records_list cf (zone_id zone) = Inr records"
    and "i < length records"
    and "rec_name (records ! i) = hostname"
    and "\<forall>j<i. rec_name (records ! j) \<noteq> hostname"
    and "rec_id (records ! i) = None \<or> rec_id (records ! i) = Some []"
  shows "RecordsCreate nr (zone_id zone) \<in> set (snd (fetch pf cf env request))
       \<and> RecordsUpdate rid nr' zid \<notin> set (snd (fetch pf cf env request))
       \<and> (dns_records_create cf nr (zone_id zone) = Inr ()
          \<longrightarrow> fetch pf cf env request =
                (Returned \<lparr>status = 200, body = ''DNS record created successfully'',
                           headers = []\<rparr>,
                 [ZonesList, RecordsList (zone_id zone), RecordsCreate nr (zone_id zone)]))
       \<and> (\<forall>e. dns_records_create cf nr (zone_id zone) = Inl e
          \<longrightarrow> fetch pf cf env request =
                (Returned \<lparr>status = 500, body = ''Error modifying DNS record'',
                           headers = []\<rparr>,
                 [ZonesList, RecordsList (zone_id zone), RecordsCreate nr (zone_id zone),
                  ConsoleError e]))"
proof -
  have found: "find_record hostname records = Some (records ! i)"
    unfolding find_record_Some using assms(11-13) by blast
  have "fetch pf cf env request =
      (case create_record cf nr zone of (out, evs) \<Rightarrow> (out, ZonesList # evs))"
    using fetch_zone_resolved [OF assms(1-10)] found assms(14) by auto
  then show ?thesis
    by (auto simp: create_record_def caught_def plain_response_def split: sum.splits)
qed

text \<open>
  The list holds a record of another name, then a record named \<open>home.example.com\<close> with
  no id (or with the empty id), then one of that name with the id \<open>rec1\<close>: the first
  match decides, and the record is created.
\<close>

theorem first_match_without_id_creates_witness:
  "fetch test_platform
       (test_cloudflare [test_other_record, test_record None, test_record (Some ''rec1'')])
       test_env (test_request ''dXNlcjpwYXNz'' ''home.example.com'' ''203.0.113.5'')
     = (Returned \<lparr>status = 200, body = ''DNS record created successfully'', headers = []\<rparr>,
        [ZonesList, RecordsList ''z1'', RecordsCreate test_new_record ''z1''])
   \<and> fetch test_platform
       (test_cloudflare [test_other_record, test_record (Some []), test_record (Some ''rec1'')])
       test_env (test_request ''dXNlcjpwYXNz'' ''home.example.com'' ''203.0.113.5'')
     = (Returned \<lparr>status = 200, body = ''DNS record created successfully'', headers = []\<rparr>,
        [ZonesList, RecordsList ''z1'', RecordsCreate test_new_record ''z1''])"
proof -
  let ?absent = "[test_other_record, test_record None, test_record (Some ''rec1'')]"
  let ?empty = "[test_other_record, test_record (Some []), test_record (Some ''rec1'')]"
  have absent: "1 < length ?absent" "rec_name (?absent ! 1) = ''home.example.com''"
    "\<forall>j<1. rec_name (?absent ! j) \<noteq> ''home.example.com''"
    "rec_id (?absent ! 1) = None \<or> rec_id (?absent ! 1) = Some []"
    by (simp_all add: test_record_def test_other_record_def)
  have empty: "1 < length ?empty" "rec_name (?empty ! 1) = ''home.example.com''"
    "\<forall>j<1. rec_name (?empty ! j) \<noteq> ''home.example.com''"
    "rec_id (?empty ! 1) = None \<or> rec_id (?empty ! 1) = Some []"
    by (simp_all add: test_record_def test_other_record_def)
  have ok: "dns_records_create (test_cloudflare rs) test_new_record
      (zone_id \<lparr>zone_id = ''z1'', zone_name = ''example.com''\<rparr>) = Inr ()" for rs
    by (simp add: test_cloudflare_def)
  show ?thesis
    using first_match_without_id_creates
        [OF test_request_authenticated test_home_request absent]
      first_match_without_id_creates
        [OF test_request_authenticated test_home_request empty]
      ok
    by simp
qed

text \<open>
  The claim as first stated takes the create branch whenever the list contains a record of
  that name without an id. It fails when a record of that name with an id stands earlier
  in the list: with the records \<open>rec1\<close> and then an id-less record, both named
  \<open>home.example.com\<close>, the handler issues an update call for \<open>rec1\<close> and no create call.
\<close>

theorem create_for_any_idless_match_counterexample:
  "test_record None \<in> set [test_record (Some ''rec1''), test_record None]
   \<and> rec_name (test_record None) = ''home.example.com''
   \<and> rec_id (test_record None) = None
   \<and> fetch test_platform (test_cloudflare [test_record (Some ''rec1''), test_record None])
       test_env (test_request ''dXNlcjpwYXNz'' ''home.example.com'' ''203.0.113.5'')
     = (Returned (plain_response 200 ''DNS record updated successfully''),
        [ZonesList, RecordsList ''z1'', RecordsUpdate ''rec1'' test_new_record ''z1''])
   \<and> RecordsCreate test_new_record ''z1''
       \<notin> set (snd (fetch test_platform
              (test_cloudflare [test_record (Some ''rec1''), test_record None])
              test_env (test_request ''dXNlcjpwYXNz'' ''home.example.com'' ''203.0.113.5'')))"
  by code_simp

subsection \<open>Provider failures\<close>

text \<open>
  Inside the \<open>try\<close> block every exception of a provider call is caught: the block never
  lets one escape, and each of the three calls that throws gives the 500 response.
\<close>

lemma upsert_catches: "fst (upsert pf cf zone hostname myip) \<noteq> Uncaught e"
  by (simp add: upsert_def create_record_def update_record_def caught_def
      split: option.splits sum.splits)

lemma upsert_logged_is_500:
  "ConsoleError e \<in> set (snd (upsert pf cf zone hostname myip)) \<Longrightarrow>
     fst (upsert pf cf zone hostname myip)
       = Returned (plain_response 500 ''Error modifying DNS record'')"
  by (auto simp: upsert_def create_record_def update_record_def caught_def
      split: option.splits sum.splits if_splits)

lemma upsert_records_list_throws:
  "parse_address pf myip = Some addr \<Longrightarrow> dns_records_list cf (zone_id zone) = Inl e \<Longrightarrow>
     upsert pf cf zone hostname myip
       = (Returned (plain_response 500 ''Error modifying DNS record''),
          [RecordsList (zone_id zone), ConsoleError e])"
  by (simp add: upsert_def caught_def)

lemma create_record_throws:
  "dns_records_create cf nr (zone_id zone) = Inl e \<Longrightarrow>
     create_record cf nr zone
       = (Returned (plain_response 500 ''Error modifying DNS record''),
          [RecordsList (zone_id zone), RecordsCreate nr (zone_id zone), ConsoleError e])"
  by (simp add: create_record_def caught_def)

lemma update_record_throws:
  "dns_records_update cf rid nr (zone_id zone) = Inl e \<Longrightarrow>
     update_record cf rid nr zone
       = (Returned (plain_response 500 ''Error modifying DNS record''),
          [RecordsList (zone_id zone), RecordsUpdate rid nr (zone_id zone), ConsoleError e])"
  by (simp add: update_record_def caught_def)

text \<open>The zone listing stands before the \<open>try\<close>: its exception leaves the handler.\<close>

lemma zones_list_throws:
  assumes "check_authorization pf env request = None"
    and "param_hostname request = Some hostname" and "hostname \<noteq> []"
    and "param_myip request = Some myip" and "myip \<noteq> []"
    and "zones_list cf = Inl e"
  shows "fetch pf cf env request = (Uncaught e, [ZonesList])"
  using assms by (simp add: fetch_def validate_and_resolve_def)

text \<open>
  Claim C1 says that an exception of any provider call, the zone listing included, is
  caught and answered with 500 "Error modifying DNS record". The handler run on an
  authenticated request for \<open>home.example.com\<close> while the zone listing rejects: the
  exception escapes, and no response is returned.
\<close>

theorem zones_list_exception_escapes:
  "fetch test_platform
     ((test_cloudflare [])\<lparr>zones_list := Inl (ProviderError ''zones.list rejected'')\<rparr>)
     test_env (test_request ''dXNlcjpwYXNz'' ''home.example.com'' ''203.0.113.5'')
   = (Uncaught (ProviderError ''zones.list rejected''), [ZonesList])"
  by code_simp

subsection \<open>The record body\<close>

text \<open>
  The body has the ttl 300, is not proxied, and has the type and the canonical form of the
  family that accepts the literal, IPv4 first.
\<close>

lemma build_new_record_v4:
  "Address4_isValid pf myip \<Longrightarrow>
     parse_address pf myip = Some (Address4 myip)
     \<and> build_new_record pf (Address4 myip) zone hostname myip
         = Some \<lparr>nr_content = Address4_correctForm pf myip,
                 nr_name = record_name zone hostname, nr_ttl = 300, nr_proxied = False,
                 nr_type = TypeA\<rparr>"
  by (simp add: parse_address_def build_new_record_def spread_with_type_def correctForm_def)

lemma build_new_record_v6:
  "\<not> Address4_isValid pf myip \<Longrightarrow> Address6_isValid pf myip \<Longrightarrow>
     parse_address pf myip = Some (Address6 myip)
     \<and> build_new_record pf (Address6 myip) zone hostname myip
         = Some \<lparr>nr_content = Address6_correctForm pf myip,
                 nr_name = record_name zone hostname, nr_ttl = 300, nr_proxied = False,
                 nr_type = TypeAAAA\<rparr>"
  by (simp add: parse_address_def build_new_record_def spread_with_type_def correctForm_def)

lemma record_name_apex: "record_name zone (zone_name zone) = Some ''@''"
  by (simp add: record_name_def)

text \<open>The name is never \<open>undefined\<close>: the separator of line 119 is not empty.\<close>

lemma record_name_defined: "record_name zone hostname \<noteq> None"
proof -
  have "str_split hostname (''.'' @ zone_name zone) \<noteq> []"
    by (rule str_split_nonempty) simp
  then show ?thesis
    by (cases "str_split hostname (''.'' @ zone_name zone)") (simp_all add: record_name_def)
qed

text \<open>A single label in front of the zone name is the name of the record.\<close>

lemma record_name_label:
  assumes "CHR ''.'' \<notin> set label"
  shows "record_name zone (label @ ''.'' @ zone_name zone) = Some label"
proof -
  let ?sep = "''.'' @ zone_name zone"
  let ?h = "label @ ?sep"
  have ne: "?h \<noteq> zone_name zone"
  proof
    assume "?h = zone_name zone"
    then have "length ?h = length (zone_name zone)" by simp
    then show False by simp
  qed
  have "\<forall>i<length label. \<not> startsWith (drop i (label @ ?sep @ [])) ?sep"
  proof (intro allI impI)
    fix i assume i: "i < length label"
    then have "drop i (label @ ?sep @ []) = label ! i # drop (Suc i) label @ ?sep"
      by (simp add: Cons_nth_drop_Suc)
    moreover have "label ! i \<noteq> CHR ''.''" using assms i by (metis nth_mem)
    ultimately show "\<not> startsWith (drop i (label @ ?sep @ [])) ?sep"
      by (simp add: startsWith_def)
  qed
  then have ix: "indexOf (label @ ?sep @ []) ?sep = int (length label)"
    by (rule indexOf_first_occurrence)
  have "str_split ?h ?sep = label # str_split [] ?sep"
    using ix by (subst str_split.simps) simp
  then show ?thesis using ne by (simp add: record_name_def)
qed

text \<open>
  Claim C5 says that the name of the record is the hostname with the trailing
  \<open>.<zone-name>\<close> suffix stripped. The handler cuts the hostname at the first occurrence
  of \<open>.<zone-name>\<close> instead. For the hostname \<open>a.example.com.example.com\<close> in the zone
  \<open>example.com\<close> the name sent to the provider is \<open>a\<close>, where stripping the trailing
  suffix gives \<open>a.example.com\<close>.
\<close>

theorem record_name_cuts_at_first_occurrence:
  "record_name \<lparr>zone_id = ''z1'', zone_name = ''example.com''\<rparr> ''a.example.com.example.com''
     = Some ''a''
   \<and> spec_record_name \<lparr>zone_id = ''z1'', zone_name = ''example.com''\<rparr>
       ''a.example.com.example.com'' = ''a.example.com''
   \<and> fetch test_platform (test_cloudflare []) test_env
       (test_request ''dXNlcjpwYXNz'' ''a.example.com.example.com'' ''203.0.113.5'')
     = (Returned (plain_response 200 ''DNS record created successfully''),
        [ZonesList, RecordsList ''z1'',
         RecordsCreate
           \<lparr>nr_content = ''203.0.113.5'', nr_name = Some ''a'', nr_ttl = 300,
            nr_proxied = False, nr_type = TypeA\<rparr> ''z1''])"
  by code_simp

end
